theory Spec2Isabelle
  imports Main "HOL-Library.Multiset" "HOL-Library.List_Lexorder" "HOL-Library.Char_ord"
begin

section \<open>JavaScript values and strings\<close>

text \<open>
  The scripts are ECMAScript modules. A string is modelled as a \<^typ>\<open>string\<close>, one
  \<^typ>\<open>char\<close> per code unit. The values that flow through the Renderer's tables are
  strings, numbers, \<open>undefined\<close>, and the members every object literal inherits from
  \<open>Object.prototype\<close> (functions, and the prototype object itself for \<open>__proto__\<close>):
  the tables of the source are plain object literals read with \<open>table[key]\<close>, and such a
  read follows the prototype chain.
\<close>

datatype jsval = JUndefined | JString string | JNumber int | JInherited string

text \<open>Truthiness, as used by \<open>||\<close>, \<open>!\<close> and \<open>if\<close>.\<close>

fun js_truthy :: "jsval \<Rightarrow> bool" where
  "js_truthy JUndefined = False"
| "js_truthy (JString s) = (s \<noteq> [])"
| "js_truthy (JNumber n) = (n \<noteq> 0)"
| "js_truthy (JInherited k) = True"

definition of_field :: "string option \<Rightarrow> jsval" where
  "of_field f = (case f of None \<Rightarrow> JUndefined | Some s \<Rightarrow> JString s)"

text \<open>The property names of \<open>Object.prototype\<close>.\<close>

definition object_prototype_keys :: "string list" where
  "object_prototype_keys =
    [''constructor'', ''hasOwnProperty'', ''isPrototypeOf'', ''propertyIsEnumerable'',
     ''toLocaleString'', ''toString'', ''valueOf'', ''__proto__'',
     ''__defineGetter__'', ''__defineSetter__'', ''__lookupGetter__'', ''__lookupSetter__'']"

text \<open>
  \<open>table[key]\<close> on an object literal with string values: an own property first, then
  the prototype chain, else \<open>undefined\<close>. A key that is not a string is converted to
  one; \<open>"undefined"\<close> and the source text of an inherited member are keys of no table
  of the source and of no prototype, so such a read is \<open>undefined\<close>.
\<close>

definition js_get :: "(string \<times> string) list \<Rightarrow> jsval \<Rightarrow> jsval" where
  "js_get table key =
    (case key of
       JString k \<Rightarrow>
         (case map_of table k of
            Some v \<Rightarrow> JString v
          | None \<Rightarrow> if k \<in> set object_prototype_keys then JInherited k else JUndefined)
     | _ \<Rightarrow> JUndefined)"

text \<open>\<open>xs.includes(v)\<close> on an array of strings.\<close>

definition js_includes :: "string list \<Rightarrow> jsval \<Rightarrow> bool" where
  "js_includes xs v = (case v of JString s \<Rightarrow> s \<in> set xs | _ \<Rightarrow> False)"

definition startsWith :: "string \<Rightarrow> string \<Rightarrow> bool" where
  "startsWith s p = (take (length p) s = p)"

section \<open>Renderer: convert-to-openacr\<close>

definition adherence_mapping :: "(string \<times> string) list" where
  "adherence_mapping =
    [(''SUPPORTED'', ''supports''),
     (''PARTIALLY_SUPPORTED'', ''partially-supports''),
     (''NOT_SUPPORTED'', ''does-not-support''),
     (''NOT_APPLICABLE'', ''not-applicable''),
     (''REQUIRES_REVIEW'', ''not-evaluated''),
     (''ERROR'', ''not-evaluated'')]"

definition convertAssessmentToAdherence :: "jsval \<Rightarrow> jsval" where
  "convertAssessmentToAdherence assessment =
    (let v = js_get adherence_mapping assessment
     in if js_truthy v then v else JString ''not-evaluated'')"

definition specialMappings :: "(string \<times> string) list" where
  "specialMappings =
    [(''1410'', ''1.4.10''), (''1411'', ''1.4.11''), (''1412'', ''1.4.12''),
     (''2411'', ''2.4.11''), (''233'', ''2.3.3''), (''248'', ''2.4.8''),
     (''249'', ''2.4.9''), (''255'', ''2.5.5''), (''258'', ''2.5.8''),
     (''325'', ''3.2.5''), (''336'', ''3.3.6'')]"

definition convertWCAGFormat :: "string option \<Rightarrow> jsval" where
  "convertWCAGFormat wcagSC =
    (case wcagSC of
       None \<Rightarrow> JUndefined
     | Some sc \<Rightarrow>
        if sc = [] \<or> \<not> startsWith sc ''wcag'' then JString sc
        else
          let numbers = drop 4 sc;
              special = js_get specialMappings (JString numbers)
          in if js_truthy special then special
             else if length numbers = 3 then
               JString ([numbers ! 0] @ ''.'' @ [numbers ! 1] @ ''.'' @ [numbers ! 2])
             else if length numbers = 4 \<and>
                     (startsWith numbers ''1'' \<or> startsWith numbers ''2'' \<or>
                      startsWith numbers ''3'' \<or> startsWith numbers ''4'') then
               JString ([numbers ! 0] @ ''.'' @ [numbers ! 1] @ ''.'' @ drop 2 numbers)
             else JString sc)"

definition wcagPositiveStatements :: "(string \<times> string) list" where
  "wcagPositiveStatements =
   [
    (''1.1.1'', ''Images and form elements have text alternatives that adequately describe the purpose and meaning''),
    (''1.2.1'', ''Prerecorded audio and video are presented with captions, transcripts, or links to equivalent content''),
    (''1.2.2'', ''Audio recordings and videos with sound have synchronized captions''),
    (''1.2.3'', ''Audio description is provided for pre-recorded video''),
    (''1.3.1'', ''The meaning conveyed by visual elements is the same when communicated programmatically for assistive technology users''),
    (''1.3.2'', ''Keyboard users navigate the page in the same order the content is presented (top down, left to right)''),
    (''1.3.3'', ''Descriptions and instructions don't rely on visual cues, like color or position''),
    (''1.4.1'', ''Links and form elements use more than color (underlines, outlines) to convey state''),
    (''1.4.2'', ''Users can pause or stop automated audio/video and control its volume in the UI''),
    (''2.1.1'', ''Interactive elements are navigable and usable with keyboard commands''),
    (''2.1.2'', ''Users can move focus to/from interactive elements with keyboard alone''),
    (''2.1.4'', ''Custom character shortcuts are scoped to a focus event, use modifier keys, or can be customized or disabled''),
    (''2.2.1'', ''Users can turn off or modify timers or time limits''),
    (''2.2.2'', ''Users can pause animations or auto-updating content''),
    (''2.3.1'', ''Pages don't have flashing content that exceeds flashing content thresholds''),
    (''2.4.1'', ''Users can skip repeated navigation elements and go straight to main content''),
    (''2.4.2'', ''Web pages have a descriptive title''),
    (''2.4.3'', ''Focusable elements appear in the same order the content is presented (top down, left to right)''),
    (''2.4.4'', ''Screen reader users can determine a link's purpose by its text and surrounding context''),
    (''2.5.1'', ''Alternative methods using tap or a click are provided for path-based gestures (scrolling, drawing, zooming the page)''),
    (''2.5.2'', ''Users can dismiss, cancel, or undo single-pointer actions''),
    (''2.5.3'', ''Interactive elements have a programmatically derived accessible name that begins with or matches its visible label''),
    (''2.5.4'', ''Motion actuation functionality can be disabled to prevent accidental triggering''),
    (''3.1.1'', ''Pages have a 'lang' attribute that identifies the main language used for content''),
    (''3.2.1'', ''No major changes to the page that could disorient users are made on focus''),
    (''3.2.2'', ''No major changes to the page that could disorient users are made when a field changes value, unless the change is expected''),
    (''3.3.1'', ''Error messages are provided in text''),
    (''3.3.2'', ''Fields for user input have text labels or instructions''),
    (''4.1.1'', ''Parsing of markup does not cause errors for assistive technologies''),
    (''4.1.2'', ''Interactive elements have a programmatically derived accessible name, role, and value/state''),
    (''1.2.4'', ''Live audio/video feeds have captions''),
    (''1.2.5'', ''Meaningful information that's not conveyed in dialogue is described in captions''),
    (''1.3.4'', ''On a mobile device, the site is fully functional whether in portrait or landscape orientation''),
    (''1.3.5'', ''Form inputs are correctly labeled for screen reader users''),
    (''1.4.3'', ''Text and links meet and often exceed minimum color contrast requirements''),
    (''1.4.4'', ''The site remains legible and fully functional when users zoom the screen by 200% or more''),
    (''1.4.5'', ''Text is only baked into an image when it needs to be, like for the site logo''),
    (''1.4.10'', ''The site uses responsive development techniques so that content and functionality are retained regardless of device or viewport size (mobile, tablet, desktop)''),
    (''1.4.11'', ''Form elements and buttons meet and often exceed minimum color contrast requirements''),
    (''1.4.12'', ''Line height, letter, paragraph, and word spacing meet size requirements relative to font size''),
    (''1.4.13'', ''Tooltips, which appear on hover and focus, persist until the user moves the pointer or focus elsewhere''),
    (''2.4.5'', ''Users can reach pages by using search, global navigation, sidebar navigation, or links within page content''),
    (''2.4.6'', ''Headings and labels are accurately described''),
    (''2.4.7'', ''Interactive elements have a visible focus state when navigating by keyboard''),
    (''2.4.11'', ''Interactive elements are at least partially visible (not obscured by other content) when focused''),
    (''2.5.7'', ''When dragging actions are required, users have an alternate, single-pointer action like tap or click to perform the same task''),
    (''2.5.8'', ''Interactive elements are at least 24x24 pixels or have sufficient space around them to prevent errant clicks, unless they're part of a sentence''),
    (''3.1.2'', ''Sections of content that do not use the main page language have a 'lang' attribute that identifies the language used''),
    (''3.2.3'', ''Navigation elements appear in the same location and order across the site''),
    (''3.2.4'', ''Interactive elements with the same function have the same name, role, and behavior''),
    (''3.3.3'', ''Corrective actions are suggested when users make an input error''),
    (''3.3.4'', ''Forms that collect user data can be reviewed and confirmed or corrected''),
    (''4.1.3'', ''Status messages are announced to users without having to focus on status message content''),
    (''1.2.6'', ''Sign Language interpretation is provided for audio content''),
    (''1.2.7'', ''Extended audio description is provided for video content where pauses in dialogue are insufficient''),
    (''1.2.8'', ''A full text alternative is provided for pre-recorded synchronized media''),
    (''1.2.9'', ''Audio-only live content has alternative access methods''),
    (''1.3.6'', ''The purpose of user interface components can be programmatically determined''),
    (''1.4.6'', ''Text has a contrast ratio of at least 7:1 with its background''),
    (''1.4.7'', ''Audio content has minimal or no background noise to aid comprehension''),
    (''1.4.8'', ''Text presentation can be customized without loss of content or functionality''),
    (''1.4.9'', ''Images of text are used only for decoration or when essential to the information''),
    (''2.1.3'', ''All page functionality is available from a keyboard without requiring specific timings''),
    (''2.2.3'', ''Timing is not an essential part of the event or activity''),
    (''2.2.4'', ''Interruptions can be postponed or suppressed by the user''),
    (''2.2.5'', ''When a session expires, the user can continue without loss of data''),
    (''2.2.6'', ''Users are warned of the duration of inactivity that will cause data loss''),
    (''2.3.2'', ''Web pages do not contain content that flashes more than three times in any one second period''),
    (''2.3.3'', ''Animation from interactions can be disabled unless essential to functionality''),
    (''2.4.8'', ''Information about the user's location within a website is available''),
    (''2.4.9'', ''Link purpose can be identified from link text alone''),
    (''2.4.10'', ''Section headings are used to organize content''),
    (''2.5.5'', ''The size of the target for pointer inputs is at least 44 by 44 CSS pixels''),
    (''2.5.6'', ''Input mechanisms are available for users who cannot perform complex gestures''),
    (''3.1.3'', ''The meaning of unusual words, phrases, idioms, and abbreviations can be determined''),
    (''3.1.4'', ''The expansion or explanation of abbreviations can be determined''),
    (''3.1.5'', ''Reading level is lower secondary education level or supplemental content is available''),
    (''3.1.6'', ''The pronunciation of words where meanings is ambiguous can be determined''),
    (''3.2.5'', ''Changes of context are initiated only by user request or a mechanism is available to turn off such changes''),
    (''3.3.5'', ''Context-sensitive help is available''),
    (''3.3.6'', ''Error prevention mechanisms are provided for submissions that are irreversible or financial'')
   ]"

text \<open>\<open>wcagPositiveStatements[wcagNum] || null\<close>; \<open>null\<close> and \<open>undefined\<close> are
  both falsy and only tested for truthiness, so one value stands for both.\<close>

definition getPositiveStatement :: "jsval \<Rightarrow> jsval" where
  "getPositiveStatement wcagNum =
    (let v = js_get wcagPositiveStatements wcagNum
     in if js_truthy v then v else JUndefined)"

definition naList :: "string list" where
  "naList = [''1.2.1'', ''1.2.3'', ''1.2.4'', ''1.2.5'', ''1.4.2'', ''2.1.4'', ''2.2.1'',
             ''2.2.2'', ''2.3.1'', ''2.5.4'', ''4.1.1'']"

definition isNotApplicable :: "jsval \<Rightarrow> bool" where
  "isNotApplicable wcagNum = js_includes naList wcagNum"

definition wcag22Criteria :: "string list" where
  "wcag22Criteria = [''2.4.11'', ''2.4.12'', ''2.4.13'', ''2.5.7'', ''2.5.8'', ''3.2.6'', ''3.3.7'']"

datatype wcag_level = A | AA | AAA

definition levelA_codes :: "string list" where
  "levelA_codes =
    [''1.1.1'', ''1.2.1'', ''1.2.2'', ''1.2.3'', ''1.3.1'', ''1.3.2'', ''1.3.3'',
     ''1.4.1'', ''1.4.2'', ''2.1.1'', ''2.1.2'', ''2.1.4'', ''2.2.1'', ''2.2.2'',
     ''2.3.1'', ''2.4.1'', ''2.4.2'', ''2.4.3'', ''2.4.4'', ''2.5.1'', ''2.5.2'',
     ''2.5.3'', ''2.5.4'', ''3.1.1'', ''3.2.1'', ''3.2.2'', ''3.3.1'', ''3.3.2'',
     ''4.1.1'', ''4.1.2'']"

definition levelAA_codes :: "string list" where
  "levelAA_codes =
    [''1.2.4'', ''1.2.5'', ''1.3.4'', ''1.3.5'', ''1.4.3'', ''1.4.4'', ''1.4.5'',
     ''1.4.10'', ''1.4.11'', ''1.4.12'', ''1.4.13'', ''2.4.5'', ''2.4.6'', ''2.4.7'',
     ''3.1.2'', ''3.2.3'', ''3.2.4'', ''3.3.3'', ''3.3.4'', ''4.1.3'']"

definition levelAAA_codes :: "string list" where
  "levelAAA_codes =
    [''1.2.6'', ''1.2.7'', ''1.2.8'', ''1.2.9'', ''1.3.6'', ''1.4.6'', ''1.4.7'',
     ''1.4.8'', ''1.4.9'', ''2.1.3'', ''2.2.3'', ''2.2.4'', ''2.2.5'', ''2.2.6'',
     ''2.3.2'', ''2.3.3'', ''2.4.8'', ''2.4.9'', ''2.4.10'', ''2.5.5'', ''2.5.6'',
     ''3.1.3'', ''3.1.4'', ''3.1.5'', ''3.1.6'', ''3.2.5'', ''3.3.5'',
     ''3.3.6'']"

definition getWCAGLevel :: "jsval \<Rightarrow> wcag_level" where
  "getWCAGLevel wcagNum =
    (if js_includes levelA_codes wcagNum then A
     else if js_includes levelAA_codes wcagNum then AA
     else if js_includes levelAAA_codes wcagNum then AAA
     else AA)"

text \<open>One parsed row of the consolidated CSV; a column the file lacks reads as
  \<open>undefined\<close> (\<open>None\<close>).\<close>

record acr_row =
  wcag_sc :: "string option"
  acr_assessment :: "string option"
  acr_summary :: "string option"
  issue_count :: "string option"
  issue_ids :: "string option"

record criterion =
  num :: jsval
  adherenceLevel :: jsval
  notesText :: jsval
  issueCount :: jsval
  issueIds :: jsval

text \<open>The three arrays \<open>levelACriteria\<close>, \<open>levelAACriteria\<close>, \<open>levelAAACriteria\<close> that
  \<open>generateOpenACR\<close> fills and then prints, one YAML entry per element.\<close>

record buckets =
  levelACriteria :: "criterion list"
  levelAACriteria :: "criterion list"
  levelAAACriteria :: "criterion list"

definition empty_buckets :: buckets where
  "empty_buckets = \<lparr>levelACriteria = [], levelAACriteria = [], levelAAACriteria = []\<rparr>"

definition push_criterion :: "criterion \<Rightarrow> buckets \<Rightarrow> buckets" where
  "push_criterion c b =
    (case getWCAGLevel (num c) of
       A \<Rightarrow> b\<lparr>levelACriteria := levelACriteria b @ [c]\<rparr>
     | AA \<Rightarrow> b\<lparr>levelAACriteria := levelAACriteria b @ [c]\<rparr>
     | AAA \<Rightarrow> b\<lparr>levelAAACriteria := levelAAACriteria b @ [c]\<rparr>)"

text \<open>The body of the first \<open>consolidatedData.forEach\<close>: \<open>None\<close> is the early
  \<open>return\<close> for a WCAG 2.2 criterion, otherwise the criterion object that is pushed.\<close>

definition render_item :: "acr_row \<Rightarrow> criterion option" where
  "render_item item =
    (let wcagNum = convertWCAGFormat (wcag_sc item)
     in if js_includes wcag22Criteria wcagNum then None
        else
          let adherence0 = convertAssessmentToAdherence (of_field (acr_assessment item));
              notes0 = (if js_truthy (of_field (acr_summary item)) then of_field (acr_summary item)
                        else JString ''No assessment available'');
              (adherence1, notes1) =
                (if isNotApplicable wcagNum then (JString ''not-applicable'', JString ''Not applicable.'')
                 else if adherence0 = JString ''supports'' then
                   (let positiveStatement = getPositiveStatement wcagNum
                    in if js_truthy positiveStatement then (adherence0, positiveStatement)
                       else (adherence0, notes0))
                 else (adherence0, notes0))
          in Some \<lparr>num = wcagNum, adherenceLevel = adherence1, notesText = notes1,
                    issueCount = of_field (issue_count item),
                    issueIds = of_field (issue_ids item)\<rparr>)"

definition process_item :: "acr_row \<Rightarrow> buckets \<Rightarrow> buckets" where
  "process_item item b = (case render_item item of None \<Rightarrow> b | Some c \<Rightarrow> push_criterion c b)"

text \<open>The second \<open>forEach\<close>: the set \<open>processedWcagNums\<close>.\<close>

definition processedWcagNums :: "acr_row list \<Rightarrow> jsval set" where
  "processedWcagNums consolidatedData =
    fold (\<lambda>item s. let wcagNum = convertWCAGFormat (wcag_sc item)
                     in if \<not> js_includes wcag22Criteria wcagNum then insert wcagNum s else s)
         consolidatedData {}"

definition na_criterion :: "string \<Rightarrow> criterion" where
  "na_criterion wcagNum =
    \<lparr>num = JString wcagNum, adherenceLevel = JString ''not-applicable'',
     notesText = JString ''Not applicable.'', issueCount = JNumber 0, issueIds = JString []\<rparr>"

definition add_missing_na :: "jsval set \<Rightarrow> string \<Rightarrow> buckets \<Rightarrow> buckets" where
  "add_missing_na processed wcagNum b =
    (if JString wcagNum \<notin> processed then push_criterion (na_criterion wcagNum) b else b)"

text \<open>The rows of \<open>generateOpenACR\<close>: the three arrays as they stand when printing starts.\<close>

definition generateOpenACR :: "acr_row list \<Rightarrow> buckets" where
  "generateOpenACR consolidatedData =
    (let b1 = fold process_item consolidatedData empty_buckets;
         processed = processedWcagNums consolidatedData
     in fold (add_missing_na processed) naList b1)"

definition rendered_rows :: "buckets \<Rightarrow> criterion list" where
  "rendered_rows b = levelACriteria b @ levelAACriteria b @ levelAAACriteria b"

section \<open>String operations of the scripts\<close>

text \<open>
  White space as \<open>\s\<close> and \<open>String.prototype.trim\<close> see it, among the code units
  below 256: tab, line feed, vertical tab, form feed, carriage return, space and the
  no-break space.
\<close>

definition is_space :: "char \<Rightarrow> bool" where
  "is_space c = (c \<in> set [CHR 0x09, CHR 0x0A, CHR 0x0B, CHR 0x0C, CHR 0x0D, CHR '' '', CHR 0xA0])"

definition trim :: "string \<Rightarrow> string" where
  "trim s = rev (dropWhile is_space (rev (dropWhile is_space s)))"

text \<open>\<open>s.split(sep)\<close> for a separator of one character: never the empty array.\<close>

fun split_on :: "char \<Rightarrow> string \<Rightarrow> string list" where
  "split_on sep [] = [[]]"
| "split_on sep (c # cs) =
     (if c = sep then [] # split_on sep cs
      else (case split_on sep cs of
              [] \<Rightarrow> [[c]]
            | x # xs \<Rightarrow> (c # x) # xs))"

text \<open>\<open>s.includes(p)\<close> on strings.\<close>

fun str_includes :: "string \<Rightarrow> string \<Rightarrow> bool" where
  "str_includes [] p = (p = [])"
| "str_includes (c # cs) p = (startsWith (c # cs) p \<or> str_includes cs p)"

section \<open>Summarizer: parsing the response of the model\<close>

text \<open>
  The four regular expressions of \<open>generateSummaries\<close> have one shape,
  \<open>/LABEL:\s*(.*?)(?=NEXT:|$)/s\<close>, the last one \<open>/LABEL:\s*(.*?)$/s\<close>. They are
  modelled by the backtracking search of \<open>String.prototype.match\<close>, piece by piece:
  the start positions from left to right, the literal label, the greedy \<open>\s*\<close> (longest
  run first, shorter ones on failure), the lazy group \<open>(.*?)\<close> (shortest first; with the
  flag \<open>s\<close> the dot matches every character), and the lookahead. Without the flag \<open>m\<close>,
  \<open>$\<close> holds at the end of the input only. The result is the text of group 1.
\<close>

fun lazy_group :: "(string \<Rightarrow> bool) \<Rightarrow> string \<Rightarrow> string \<Rightarrow> string option" where
  "lazy_group ahead acc [] = (if ahead [] then Some acc else None)"
| "lazy_group ahead acc (c # cs) =
     (if ahead (c # cs) then Some acc else lazy_group ahead (acc @ [c]) cs)"

fun greedy_spaces :: "(string \<Rightarrow> string option) \<Rightarrow> string \<Rightarrow> string option" where
  "greedy_spaces k [] = k []"
| "greedy_spaces k (c # cs) =
     (if is_space c then
        (case greedy_spaces k cs of
           Some g \<Rightarrow> Some g
         | None \<Rightarrow> k (c # cs))
      else k (c # cs))"

definition match_here :: "string \<Rightarrow> (string \<Rightarrow> bool) \<Rightarrow> string \<Rightarrow> string option" where
  "match_here label ahead s =
    (if startsWith s label then greedy_spaces (lazy_group ahead []) (drop (length label) s)
     else None)"

fun regex_match :: "string \<Rightarrow> (string \<Rightarrow> bool) \<Rightarrow> string \<Rightarrow> string option" where
  "regex_match label ahead [] = match_here label ahead []"
| "regex_match label ahead (c # cs) =
     (case match_here label ahead (c # cs) of
        Some g \<Rightarrow> Some g
      | None \<Rightarrow> regex_match label ahead cs)"

text \<open>The lookaheads \<open>(?=NEXT:|$)\<close> and \<open>$\<close>.\<close>

definition before_label_or_end :: "string \<Rightarrow> string \<Rightarrow> bool" where
  "before_label_or_end next rest = (startsWith rest next \<or> rest = [])"

definition at_end :: "string \<Rightarrow> bool" where
  "at_end rest = (rest = [])"






section \<open>The CSV parser of the Summarizer and the Aggregator\<close>

text \<open>
  \<open>parseCSVLine\<close>: the loop over the characters of one line, with its three variables
  \<open>current\<close>, \<open>inQuotes\<close> and \<open>values\<close>. A quote followed by a quote inside quotes is one
  quote character and both are consumed.
\<close>

fun parseCSVLine_loop :: "string \<Rightarrow> string \<Rightarrow> bool \<Rightarrow> string list \<Rightarrow> string list" where
  "parseCSVLine_loop [] current inQuotes vals = vals @ [trim current]"
| "parseCSVLine_loop (c # cs) current inQuotes vals =
     (if c = CHR 0x22 then
        (case cs of
           d # ds \<Rightarrow>
             if inQuotes \<and> d = CHR 0x22 then parseCSVLine_loop ds (current @ [CHR 0x22]) inQuotes vals
             else parseCSVLine_loop cs current (\<not> inQuotes) vals
         | [] \<Rightarrow> parseCSVLine_loop cs current (\<not> inQuotes) vals)
      else if c = CHR '','' \<and> \<not> inQuotes then parseCSVLine_loop cs [] inQuotes (vals @ [trim current])
      else parseCSVLine_loop cs (current @ [c]) inQuotes vals)"

definition parseCSVLine :: "string \<Rightarrow> string list" where
  "parseCSVLine line = parseCSVLine_loop line [] False []"

text \<open>\<open>csvContent.split('\n').filter(line => line.trim())\<close>\<close>

definition csv_lines :: "string \<Rightarrow> string list" where
  "csv_lines csvContent = filter (\<lambda>line. trim line \<noteq> []) (split_on (CHR 0x0A) csvContent)"

text \<open>\<open>lines[0].split(',').map(h => h.replace(/"/g, '').trim())\<close>\<close>

definition csv_headers :: "string \<Rightarrow> string list" where
  "csv_headers line = map (\<lambda>h. trim (filter (\<lambda>c. c \<noteq> CHR 0x22) h)) (split_on (CHR '','') line)"

text \<open>
  A parsed row is the object the inner \<open>forEach\<close> builds, written as the list of its
  assignments \<open>row[header] = values[index]\<close> in order. The loop over the data lines carries
  the array \<open>rows\<close>.
\<close>

type_synonym csv_row = "(string \<times> string) list"

fun parseCSV_loop :: "string list \<Rightarrow> string list \<Rightarrow> csv_row list \<Rightarrow> csv_row list" where
  "parseCSV_loop headers [] rows = rows"
| "parseCSV_loop headers (line # lines) rows =
     (let values = parseCSVLine line
      in if length values = length headers
         then parseCSV_loop headers lines (rows @ [zip headers values])
         else parseCSV_loop headers lines rows)"

datatype js_error = TypeError string | Error string

text \<open>With no line left after the filter, \<open>lines[0]\<close> is \<open>undefined\<close> and
  \<open>lines[0].split\<close> raises a \<open>TypeError\<close>.\<close>

definition parseCSV :: "string \<Rightarrow> js_error + csv_row list" where
  "parseCSV csvContent =
    (case csv_lines csvContent of
       [] \<Rightarrow> Inl (TypeError ''Cannot read properties of undefined (reading 'split')'')
     | header_line # data_lines \<Rightarrow>
         Inr (parseCSV_loop (csv_headers header_line) data_lines []))"

section \<open>Aggregator: consolidate-wcag-summaries\<close>

subsection \<open>The network and the clock\<close>

text \<open>
  What the script cannot decide is an input of the model. The outcome of the \<open>n\<close>-th HTTPS
  request of a run is \<open>net n\<close>: the request is rejected (a connection error, with its
  message), or it is answered. An answer carries its status, its body as text, and what
  reading the body as the model's reply gives: \<open>response.json()\<close> or a later property read
  raises (with a message), the reply has no candidate, or it has a candidate text. The
  state of a run counts the requests sent and logs every \<open>delay\<close> as its fixed part and
  the bound of the random part added to it, in milliseconds.
\<close>

datatype json_view = JsonThrows string | NoCandidates | CandidateText string

record http_response =
  status :: nat
  body_text :: string
  body_json :: json_view

datatype request_result = Rejected string | Responded http_response

record world =
  sent :: nat
  slept :: "(nat \<times> nat) list"

definition start :: world where
  "start = \<lparr>sent = 0, slept = []\<rparr>"

definition delay :: "nat \<Rightarrow> nat \<Rightarrow> world \<Rightarrow> world" where
  "delay ms jitter w = w\<lparr>slept := slept w @ [(ms, jitter)]\<rparr>"

definition response_ok :: "http_response \<Rightarrow> bool" where
  "response_ok r = (200 \<le> status r \<and> status r < 300)"

text \<open>A value returned, or an exception with its message.\<close>

datatype 'a completion = Returned 'a | Threw string

text \<open>Decimal digits of a number, as a template literal prints it.\<close>

fun show_nat :: "nat \<Rightarrow> string" where
  "show_nat n =
     (if n < 10 then [char_of (48 + n)]
      else show_nat (n div 10) @ [char_of (48 + n mod 10)])"

subsection \<open>fetchWithRetry\<close>

text \<open>
  One round of the \<open>for\<close> loop of \<open>fetchWithRetry\<close>: it returns, throws out of the function,
  or goes on to the next round. A 503 or a 429 waits and goes on with \<open>continue\<close>; a status
  of 400 or more throws inside the \<open>try\<close> and lands in the \<open>catch\<close>, as a rejected request
  does; the \<open>catch\<close> rethrows in the last round and waits otherwise.
\<close>

datatype 'a round = Finish "'a completion" world | Next world

definition catch_block :: "nat \<Rightarrow> nat \<Rightarrow> string \<Rightarrow> world \<Rightarrow> 'a round" where
  "catch_block retries attempt message w =
    (if attempt = retries then Finish (Threw message) w
     else Next (delay (min (attempt * 2000) 10000) 0 w))"

definition fetch_round ::
  "(nat \<Rightarrow> request_result) \<Rightarrow> nat \<Rightarrow> nat \<Rightarrow> world \<Rightarrow> http_response option round" where
  "fetch_round net retries attempt w =
    (let w1 = w\<lparr>sent := sent w + 1\<rparr>
     in case net (sent w) of
          Rejected message \<Rightarrow> catch_block retries attempt message w1
        | Responded response \<Rightarrow>
            if response_ok response then Finish (Returned (Some response)) w1
            else if status response = 503 \<or> status response = 429 then
              (let baseWaitTime =
                     (if status response = 503
                      then (if attempt = 1 then 15000 else 2 ^ attempt * 10000)
                      else (if attempt = 1 then 5000 else 2 ^ attempt * 3000))
               in Next (delay baseWaitTime 5000 w1))
            else if status response \<ge> 400 then
              catch_block retries attempt
                (''HTTP '' @ show_nat (status response) @ '': '' @ body_text response) w1
            else Next w1)"

text \<open>The loop. When it runs out of rounds the function ends without a \<open>return\<close>: the
  caller receives \<open>undefined\<close>, here \<open>None\<close>.\<close>

function fetchWithRetry_from ::
  "(nat \<Rightarrow> request_result) \<Rightarrow> nat \<Rightarrow> nat \<Rightarrow> world \<Rightarrow> http_response option completion \<times> world" where
  "fetchWithRetry_from net retries attempt w =
    (if attempt \<le> retries then
       (case fetch_round net retries attempt w of
          Finish result w' \<Rightarrow> (result, w')
        | Next w' \<Rightarrow> fetchWithRetry_from net retries (attempt + 1) w')
     else (Returned None, w))"
  by pat_completeness auto
termination
  by (relation "measure (\<lambda>(net, retries, attempt, w). Suc retries - attempt)") auto

definition fetchWithRetry ::
  "(nat \<Rightarrow> request_result) \<Rightarrow> world \<Rightarrow> http_response option completion \<times> world" where
  "fetchWithRetry net w = fetchWithRetry_from net 5 1 w"

subsection \<open>generateWCAGSummary\<close>

record member =
  m_issueId :: string
  m_wcagSC :: string
  m_title :: string
  m_acrNote :: string

record consolidated =
  c_assessment :: string
  c_summary :: string
  c_issueIds :: string

fun join :: "string \<Rightarrow> string list \<Rightarrow> string" where
  "join sep [] = []"
| "join sep [x] = x"
| "join sep (x # y # ys) = x @ sep @ join sep (y # ys)"

text \<open>The \<open>catch\<close> of \<open>generateWCAGSummary\<close>, from the message of the error.\<close>

definition summary_on_error :: "member list \<Rightarrow> string \<Rightarrow> string \<Rightarrow> consolidated" where
  "summary_on_error issues joinedIds message =
    (if str_includes message ''503'' \<or> str_includes message ''overloaded'' then
       \<lparr>c_assessment = ''REQUIRES_REVIEW'',
        c_summary = ''Based on '' @ show_nat (length issues) @ '' identified issue'' @
          (if length issues > 1 then ''s'' else '''') @
          '', automatic assessment could not be completed due to API limitations. Manual review required to determine conformance level and detailed impact analysis. Issues affect accessibility across multiple user groups and require technical evaluation.'',
        c_issueIds = joinedIds\<rparr>
     else
       \<lparr>c_assessment = ''ERROR'',
        c_summary = ''Error generating summary: '' @ message,
        c_issueIds = joinedIds\<rparr>)"

text \<open>
  \<open>generateWCAGSummary\<close> with the API key present (the script exits before its first call
  without one). The prompt is part of the request and does not enter the result. Reading
  \<open>.json\<close> from the \<open>undefined\<close> that \<open>fetchWithRetry\<close> returns after its last round
  raises a \<open>TypeError\<close> inside the \<open>try\<close>.
\<close>

definition generateWCAGSummary ::
  "(nat \<Rightarrow> request_result) \<Rightarrow> string \<Rightarrow> member list \<Rightarrow> world \<Rightarrow> consolidated \<times> world" where
  "generateWCAGSummary net wcagSC issues w =
    (let joinedIds = join '', '' (map m_issueId issues)
     in case fetchWithRetry net w of
          (Threw message, w') \<Rightarrow> (summary_on_error issues joinedIds message, w')
        | (Returned None, w') \<Rightarrow>
            (summary_on_error issues joinedIds
               ''Cannot read properties of undefined (reading 'json')'', w')
        | (Returned (Some response), w') \<Rightarrow>
            (case body_json response of
               JsonThrows message \<Rightarrow> (summary_on_error issues joinedIds message, w')
             | NoCandidates \<Rightarrow>
                 (summary_on_error issues joinedIds
                    ''Invalid response structure from Gemini API'', w')
             | CandidateText responseText \<Rightarrow>
                 (let assessmentMatch =
                        regex_match ''ACR_ASSESSMENT:'' (before_label_or_end ''ACR_SUMMARY:'')
                          responseText;
                      summaryMatch = regex_match ''ACR_SUMMARY:'' at_end responseText
                  in (\<lparr>c_assessment =
                          (case assessmentMatch of Some g \<Rightarrow> trim g | None \<Rightarrow> ''UNKNOWN''),
                        c_summary =
                          (case summaryMatch of Some g \<Rightarrow> trim g
                           | None \<Rightarrow> ''Unable to generate summary''),
                        c_issueIds = joinedIds\<rparr>,
                      delay 2000 3000 w'))))"

subsection \<open>consolidateWCAGSummaries\<close>

text \<open>The rows of the two input files, with the columns the script reads.\<close>

record detailed_issue =
  d_wcag_sc :: string
  d_issue_id :: string
  d_issue_title :: string

record issue_summary =
  s_issue_id :: string
  s_acr_note :: string

text \<open>\<open>summaryMap\<close>: a later row of the same id replaces an earlier one.\<close>

definition summaryMap :: "issue_summary list \<Rightarrow> (string \<rightharpoonup> issue_summary)" where
  "summaryMap issueSummaries = fold (\<lambda>s m. m(s_issue_id s \<mapsto> s)) issueSummaries Map.empty"

text \<open>\<open>wcagGroups\<close>: a \<open>Map\<close> keeps its keys in the order of their first insertion.\<close>

fun push_member :: "string \<Rightarrow> member option \<Rightarrow> (string \<times> member list) list \<Rightarrow> (string \<times> member list) list" where
  "push_member wcagSC m [] = [(wcagSC, (case m of None \<Rightarrow> [] | Some x \<Rightarrow> [x]))]"
| "push_member wcagSC m ((k, ms) # groups) =
     (if k = wcagSC then (k, (case m of None \<Rightarrow> ms | Some x \<Rightarrow> ms @ [x])) # groups
      else (k, ms) # push_member wcagSC m groups)"

definition wcagGroups ::
  "detailed_issue list \<Rightarrow> issue_summary list \<Rightarrow> (string \<times> member list) list" where
  "wcagGroups detailedIssues issueSummaries =
    fold (\<lambda>issue groups.
            push_member (d_wcag_sc issue)
              (case summaryMap issueSummaries (d_issue_id issue) of
                 None \<Rightarrow> None
               | Some summary \<Rightarrow>
                   Some \<lparr>m_issueId = d_issue_id issue, m_wcagSC = d_wcag_sc issue,
                         m_title = d_issue_title issue,
                         m_acrNote = (if s_acr_note summary \<noteq> [] then s_acr_note summary
                                      else ''No ACR note available'')\<rparr>)
              groups)
         detailedIssues []"

text \<open>A row of the output file, without its time stamp.\<close>

record acr_result =
  r_wcagSC :: string
  r_assessment :: string
  r_summary :: string
  r_issueCount :: nat
  r_issueIds :: string

definition result_of :: "string \<Rightarrow> member list \<Rightarrow> consolidated \<Rightarrow> acr_result" where
  "result_of wcagSC issues consolidatedSummary =
    \<lparr>r_wcagSC = wcagSC, r_assessment = c_assessment consolidatedSummary,
     r_summary = c_summary consolidatedSummary, r_issueCount = length issues,
     r_issueIds = c_issueIds consolidatedSummary\<rparr>"

text \<open>The main loop over the groups, with \<open>results\<close> and \<open>failedEntries\<close>.\<close>

fun main_loop ::
  "(nat \<Rightarrow> request_result) \<Rightarrow> (string \<times> member list) list \<Rightarrow> acr_result list \<Rightarrow>
   (string \<times> member list) list \<Rightarrow> world \<Rightarrow>
   acr_result list \<times> (string \<times> member list) list \<times> world" where
  "main_loop net [] results failedEntries w = (results, failedEntries, w)"
| "main_loop net ((wcagSC, issues) # groups) results failedEntries w =
     (case generateWCAGSummary net wcagSC issues w of
        (consolidatedSummary, w') \<Rightarrow>
          main_loop net groups
            (results @ [result_of wcagSC issues consolidatedSummary])
            (if c_assessment consolidatedSummary = ''REQUIRES_REVIEW''
             then failedEntries @ [(wcagSC, issues)] else failedEntries)
            w')"

text \<open>\<open>results.findIndex\<close>\<close>

fun findIndex :: "('a \<Rightarrow> bool) \<Rightarrow> 'a list \<Rightarrow> nat option" where
  "findIndex P [] = None"
| "findIndex P (x # xs) = (if P x then Some 0 else map_option Suc (findIndex P xs))"

text \<open>The retry pass over \<open>failedEntries\<close>.\<close>

fun retry_loop ::
  "(nat \<Rightarrow> request_result) \<Rightarrow> (string \<times> member list) list \<Rightarrow> acr_result list \<Rightarrow> world \<Rightarrow>
   acr_result list \<times> world" where
  "retry_loop net [] results w = (results, w)"
| "retry_loop net ((wcagSC, issues) # failedEntries) results w =
     (case generateWCAGSummary net wcagSC issues w of
        (consolidatedSummary, w') \<Rightarrow>
          retry_loop net failedEntries
            (case findIndex (\<lambda>r. r_wcagSC r = wcagSC) results of
               None \<Rightarrow> results
             | Some existingIndex \<Rightarrow>
                 results[existingIndex := result_of wcagSC issues consolidatedSummary])
            w')"

text \<open>
  The whole run up to the rows written. \<open>a.wcagSC.localeCompare(b.wcagSC)\<close> compares the
  collation keys of the two codes; \<open>collate\<close> is that key. \<open>Array.prototype.sort\<close> is
  stable, as \<open>sort_key\<close> is.
\<close>

definition consolidateWCAGSummaries ::
  "(string \<Rightarrow> 'k::linorder) \<Rightarrow> (nat \<Rightarrow> request_result) \<Rightarrow> detailed_issue list \<Rightarrow>
   issue_summary list \<Rightarrow> acr_result list \<times> world" where
  "consolidateWCAGSummaries collate net detailedIssues issueSummaries =
    (case main_loop net (wcagGroups detailedIssues issueSummaries) [] [] start of
       (results, failedEntries, w) \<Rightarrow>
         (case (if failedEntries \<noteq> []
                then retry_loop net failedEntries results (delay 30000 0 w)
                else (results, w)) of
            (results', w') \<Rightarrow> (sort_key (\<lambda>r. collate (r_wcagSC r)) results', w')))"

section \<open>Properties of the Renderer\<close>

lemma mset_rendered_push:
  "mset (rendered_rows (push_criterion c b)) = add_mset c (mset (rendered_rows b))"
  by (simp add: push_criterion_def rendered_rows_def split: wcag_level.splits)

lemma mset_fold_process_item:
  "mset (rendered_rows (fold process_item consolidatedData b)) =
     mset (rendered_rows b) + mset (List.map_filter render_item consolidatedData)"
  by (induction consolidatedData arbitrary: b)
     (auto simp: process_item_def mset_rendered_push split: option.splits)

lemma mset_fold_add_missing_na:
  "mset (rendered_rows (fold (add_missing_na processed) codes b)) =
     mset (rendered_rows b) +
     mset (map na_criterion (filter (\<lambda>code. JString code \<notin> processed) codes))"
  by (induction codes arbitrary: b) (auto simp: add_missing_na_def mset_rendered_push)



lemma mset_generateOpenACR:
  "mset (rendered_rows (generateOpenACR consolidatedData)) =
     mset (List.map_filter render_item consolidatedData) +
     mset (map na_criterion
            (filter (\<lambda>code. JString code \<notin> processedWcagNums consolidatedData) naList))"
proof -
  have "rendered_rows empty_buckets = []"
    by (simp add: rendered_rows_def empty_buckets_def)
  then show ?thesis
    by (simp add: generateOpenACR_def Let_def mset_fold_add_missing_na mset_fold_process_item)
qed

lemma render_item_num:
  "render_item item = Some c \<Longrightarrow> num c = convertWCAGFormat (wcag_sc item)"
  by (auto simp: render_item_def Let_def split: if_splits prod.splits)

lemma render_item_forced:
  "render_item item = Some c \<Longrightarrow> isNotApplicable (num c) \<Longrightarrow>
     adherenceLevel c = JString ''not-applicable'' \<and> notesText c = JString ''Not applicable.''"
  by (auto simp: render_item_def Let_def split: if_splits prod.splits)

lemma naList_not_wcag22: "code \<in> set naList \<Longrightarrow> code \<notin> set wcag22Criteria"
  by (auto simp: naList_def wcag22Criteria_def)


lemma set_map_filter_Some:
  "set (List.map_filter f xs) = {y. \<exists>x \<in> set xs. f x = Some y}"
  by (induction xs) (auto split: option.splits)

lemma set_generateOpenACR:
  "set (rendered_rows (generateOpenACR consolidatedData)) =
     {c. \<exists>item \<in> set consolidatedData. render_item item = Some c} \<union>
     na_criterion ` {code \<in> set naList. JString code \<notin> processedWcagNums consolidatedData}"
proof -
  have "set (rendered_rows (generateOpenACR consolidatedData)) =
        set_mset (mset (rendered_rows (generateOpenACR consolidatedData)))"
    by simp
  also have "\<dots> = set (List.map_filter render_item consolidatedData) \<union>
      set (map na_criterion
            (filter (\<lambda>code. JString code \<notin> processedWcagNums consolidatedData) naList))"
    unfolding mset_generateOpenACR by simp
  finally show ?thesis
    by (simp add: set_map_filter_Some)
qed


lemma render_item_not_dropped:
  "isNotApplicable (convertWCAGFormat (wcag_sc item)) \<Longrightarrow> \<exists>c. render_item item = Some c"
  by (auto simp: render_item_def Let_def isNotApplicable_def js_includes_def
        dest: naList_not_wcag22 split: jsval.splits prod.splits)

text \<open>
  Claim C1. Every row of the consolidated data whose criterion code is in the forced
  not-applicable table is rendered (it is not dropped), and every rendered row whose code
  is in that table, whether it comes from the data or was added for a missing code, has
  adherence level \<open>not-applicable\<close> and notes \<open>Not applicable.\<close>, whatever assessment
  and summary the Aggregator wrote for it.
\<close>

theorem forced_not_applicable:
  "(\<forall>item \<in> set consolidatedData.
      isNotApplicable (convertWCAGFormat (wcag_sc item)) \<longrightarrow>
        (\<exists>c \<in> set (rendered_rows (generateOpenACR consolidatedData)).
           render_item item = Some c \<and> num c = convertWCAGFormat (wcag_sc item))) \<and>
   (\<forall>c \<in> set (rendered_rows (generateOpenACR consolidatedData)).
      isNotApplicable (num c) \<longrightarrow>
        adherenceLevel c = JString ''not-applicable'' \<and>
        notesText c = JString ''Not applicable.'')"
proof (intro conjI ballI impI)
  fix item
  assume "item \<in> set consolidatedData"
    and "isNotApplicable (convertWCAGFormat (wcag_sc item))"
  then show "\<exists>c \<in> set (rendered_rows (generateOpenACR consolidatedData)).
           render_item item = Some c \<and> num c = convertWCAGFormat (wcag_sc item)"
    using render_item_not_dropped [of item]
    by (auto simp: set_generateOpenACR dest: render_item_num)
next
  fix c
  assume "c \<in> set (rendered_rows (generateOpenACR consolidatedData))"
    and "isNotApplicable (num c)"
  then show "adherenceLevel c = JString ''not-applicable''"
    and "notesText c = JString ''Not applicable.''"
    by (auto simp: set_generateOpenACR na_criterion_def dest: render_item_forced)
qed


theorem forced_not_applicable_witness:
  "isNotApplicable (convertWCAGFormat (wcag_sc
      \<lparr>wcag_sc = Some ''wcag221'', acr_assessment = Some ''SUPPORTED'',
       acr_summary = Some ''All timers can be extended.'', issue_count = Some ''3'',
       issue_ids = Some ''1, 2, 3''\<rparr>)) \<and>
   (\<exists>c \<in> set (rendered_rows (generateOpenACR
        [\<lparr>wcag_sc = Some ''wcag221'', acr_assessment = Some ''SUPPORTED'',
          acr_summary = Some ''All timers can be extended.'', issue_count = Some ''3'',
          issue_ids = Some ''1, 2, 3''\<rparr>])).
      num c = JString ''2.2.1'' \<and> issueCount c = JString ''3'' \<and>
      adherenceLevel c = JString ''not-applicable'' \<and>
      notesText c = JString ''Not applicable.'')"
proof -
  let ?r = "\<lparr>wcag_sc = Some ''wcag221'', acr_assessment = Some ''SUPPORTED'',
       acr_summary = Some ''All timers can be extended.'', issue_count = Some ''3'',
       issue_ids = Some ''1, 2, 3''\<rparr>"
  have na: "isNotApplicable (convertWCAGFormat (wcag_sc ?r))"
    by code_simp
  have conv: "convertWCAGFormat (wcag_sc ?r) = JString ''2.2.1''"
    by code_simp
  from forced_not_applicable [of "[?r]"] na
  obtain c where c: "c \<in> set (rendered_rows (generateOpenACR [?r]))"
      "render_item ?r = Some c" "num c = convertWCAGFormat (wcag_sc ?r)"
    by auto
  have "render_item ?r = Some \<lparr>num = JString ''2.2.1'',
      adherenceLevel = JString ''not-applicable'', notesText = JString ''Not applicable.'',
      issueCount = JString ''3'', issueIds = JString ''1, 2, 3''\<rparr>"
    by code_simp
  with c(2) have cnt: "issueCount c = JString ''3''"
    by auto
  from forced_not_applicable [of "[?r]"] c na
  have "adherenceLevel c = JString ''not-applicable'' \<and>
        notesText c = JString ''Not applicable.''"
    by metis
  with c conv cnt na show ?thesis
    by auto
qed



lemma count_list_filter_distinct:
  "distinct xs \<Longrightarrow> count_list (map f (filter P xs)) (f x) \<le> count_list (map f xs) (f x)"
  by (induction xs) auto











text \<open>
  Claim C4. The level mapping reads an object literal with \<open>mapping[assessment]\<close>, which
  also finds the members inherited from \<open>Object.prototype\<close>. For the upstream level
  \<open>constructor\<close> the row's adherence level is that inherited member, not
  \<open>not-evaluated\<close> and not one of the five adherence values.
\<close>

theorem unknown_level_inherited_member:
  "render_item \<lparr>wcag_sc = Some ''wcag111'', acr_assessment = Some ''constructor'',
      acr_summary = Some ''X'', issue_count = Some ''1'', issue_ids = Some ''42''\<rparr> =
   Some \<lparr>num = JString ''1.1.1'', adherenceLevel = JInherited ''constructor'',
         notesText = JString ''X'', issueCount = JString ''1'', issueIds = JString ''42''\<rparr>"
  by code_simp

text \<open>
  The four assessment levels map as the table says, and every level that is neither a key
  of the table nor the name of an inherited member maps to \<open>not-evaluated\<close>.
\<close>

lemma known_levels:
  "convertAssessmentToAdherence (JString ''SUPPORTED'') = JString ''supports''"
  "convertAssessmentToAdherence (JString ''PARTIALLY_SUPPORTED'') = JString ''partially-supports''"
  "convertAssessmentToAdherence (JString ''NOT_SUPPORTED'') = JString ''does-not-support''"
  "convertAssessmentToAdherence (JString ''NOT_APPLICABLE'') = JString ''not-applicable''"
  by code_simp+

lemma unknown_level_default:
  assumes "assessment \<notin> JString ` (fst ` set adherence_mapping \<union> set object_prototype_keys)"
  shows "convertAssessmentToAdherence assessment = JString ''not-evaluated''"
proof (cases assessment)
  case (JString k)
  with assms have "map_of adherence_mapping k = None" and "k \<notin> set object_prototype_keys"
    by (auto simp: map_of_eq_None_iff)
  with JString show ?thesis
    by (simp add: convertAssessmentToAdherence_def js_get_def)
qed (simp_all add: convertAssessmentToAdherence_def js_get_def)

lemma positive_statements_nonempty:
  assumes "map_of wcagPositiveStatements code = Some s"
  shows "s \<noteq> []"
proof -
  have "list_all (\<lambda>(k, v). v \<noteq> []) wcagPositiveStatements"
    by code_simp
  then have "\<forall>(k, v) \<in> set wcagPositiveStatements. v \<noteq> []"
    by (simp only: list_all_iff)
  with map_of_SomeD [OF assms] show ?thesis
    by auto
qed

lemma render_item_supports:
  assumes "render_item item = Some c" and "adherenceLevel c = JString ''supports''"
  shows "notesText c =
          (if js_truthy (getPositiveStatement (num c)) then getPositiveStatement (num c)
           else if js_truthy (of_field (acr_summary item)) then of_field (acr_summary item)
           else JString ''No assessment available'')"
  using assms by (auto simp: render_item_def Let_def split: if_splits prod.splits)

text \<open>
  Claim C5, as amended. For a rendered row whose adherence level is \<open>supports\<close> (such a
  row is neither excluded nor forced not-applicable): when the canned table has an entry
  for its code, the notes are the canned text; when the lookup of its code yields nothing,
  the notes are the upstream summary if that is a non-empty string, and
  \<open>No assessment available\<close> if the summary is empty or missing.
\<close>

theorem positive_statement_rule:
  assumes "render_item item = Some c" and "adherenceLevel c = JString ''supports''"
  shows "(\<forall>code s. num c = JString code \<and> map_of wcagPositiveStatements code = Some s \<longrightarrow>
            notesText c = JString s) \<and>
         (getPositiveStatement (num c) = JUndefined \<longrightarrow>
            notesText c =
              (case acr_summary item of
                 None \<Rightarrow> JString ''No assessment available''
               | Some s \<Rightarrow> if s = [] then JString ''No assessment available'' else JString s))"
proof (intro conjI allI impI)
  fix code s
  assume h: "num c = JString code \<and> map_of wcagPositiveStatements code = Some s"
  then have "s \<noteq> []"
    by (auto dest: positive_statements_nonempty)
  with h have "getPositiveStatement (num c) = JString s"
    by (simp add: getPositiveStatement_def js_get_def)
  with \<open>s \<noteq> []\<close> show "notesText c = JString s"
    by (simp add: render_item_supports [OF assms])
next
  assume "getPositiveStatement (num c) = JUndefined"
  then show "notesText c =
      (case acr_summary item of
         None \<Rightarrow> JString ''No assessment available''
       | Some s \<Rightarrow> if s = [] then JString ''No assessment available'' else JString s)"
    by (simp add: render_item_supports [OF assms] of_field_def split: option.splits)
qed

theorem positive_statement_rule_witness:
  "\<exists>c. render_item \<lparr>wcag_sc = Some ''wcag111'', acr_assessment = Some ''SUPPORTED'',
          acr_summary = Some ''X'', issue_count = Some ''1'', issue_ids = Some ''42''\<rparr> = Some c \<and>
       adherenceLevel c = JString ''supports'' \<and> num c = JString ''1.1.1'' \<and>
       map_of wcagPositiveStatements ''1.1.1'' = Some ''Images and form elements have text alternatives that adequately describe the purpose and meaning'' \<and>
       notesText c = JString ''Images and form elements have text alternatives that adequately describe the purpose and meaning''"
proof -
  let ?r = "\<lparr>wcag_sc = Some ''wcag111'', acr_assessment = Some ''SUPPORTED'',
          acr_summary = Some ''X'', issue_count = Some ''1'', issue_ids = Some ''42''\<rparr>"
  let ?s = "''Images and form elements have text alternatives that adequately describe the purpose and meaning''"
  have "render_item ?r = Some \<lparr>num = JString ''1.1.1'', adherenceLevel = JString ''supports'',
      notesText = JString ?s, issueCount = JString ''1'', issueIds = JString ''42''\<rparr>"
    by code_simp
  then obtain c where c: "render_item ?r = Some c" "adherenceLevel c = JString ''supports''"
      "num c = JString ''1.1.1''"
    by simp
  have tab: "map_of wcagPositiveStatements ''1.1.1'' = Some ?s"
    by code_simp
  from positive_statement_rule [OF c(1,2)] c(3) tab have "notesText c = JString ?s"
    by blast
  with c tab show ?thesis
    by blast
qed

text \<open>
  Claim C5 as stated fails where the upstream summary is empty: the code \<open>9.9.9\<close> has
  no canned entry, and the row is rendered with the notes \<open>No assessment available\<close>
  instead of its (empty) upstream summary.
\<close>

theorem upstream_narrative_counterexample:
  "map_of wcagPositiveStatements ''9.9.9'' = None \<and>
   render_item \<lparr>wcag_sc = Some ''wcag999'', acr_assessment = Some ''SUPPORTED'',
      acr_summary = Some [], issue_count = Some ''1'', issue_ids = Some ''42''\<rparr> =
   Some \<lparr>num = JString ''9.9.9'', adherenceLevel = JString ''supports'',
         notesText = JString ''No assessment available'',
         issueCount = JString ''1'', issueIds = JString ''42''\<rparr>"
  by code_simp


section \<open>Properties of the Summarizer's response parsing\<close>





















section \<open>Properties of the CSV parser\<close>

lemma parseCSV_loop_filter:
  "parseCSV_loop headers lines rows =
     rows @ map (\<lambda>line. zip headers (parseCSVLine line))
              (filter (\<lambda>line. length (parseCSVLine line) = length headers) lines)"
  by (induction lines arbitrary: rows) (simp_all add: Let_def)

lemma split_on_nonempty: "split_on sep s \<noteq> []"
  by (induction s) (auto split: list.splits)

lemma split_on_append:
  "split_on sep (a @ sep # b) = split_on sep a @ split_on sep b"
  using split_on_nonempty [of sep]
  by (induction a) (auto split: list.splits)

lemma csv_lines_append:
  "csv_lines (a @ [CHR 0x0A] @ b) = csv_lines a @ csv_lines b"
  by (simp add: csv_lines_def split_on_append)

text \<open>
  Claim C10, as amended. For content with at least one non-blank line the parser raises
  no error and returns exactly one row for each non-blank line after the first whose
  parsed field count equals the header's field count (the header split at its commas), in
  order; every other line is omitted silently. The content is split at line feeds before
  quotes are looked at (\<open>csv_lines_append\<close>), so a record whose quoted field contains a
  line break is read as separate lines: a fragment whose field count differs from the
  header's is dropped, and a fragment whose count equals it is kept as a row of its own.
\<close>

theorem parseCSV_keeps_matching_lines:
  assumes "csv_lines csvContent = header_line # data_lines"
  shows "parseCSV csvContent =
           Inr (map (\<lambda>line. zip (csv_headers header_line) (parseCSVLine line))
                  (filter (\<lambda>line. length (parseCSVLine line) = length (csv_headers header_line))
                     data_lines))"
  using assms by (simp add: parseCSV_def parseCSV_loop_filter)

theorem parseCSV_keeps_matching_lines_witness:
  "csv_lines (''A,B'' @ [CHR 0x0A] @ ''1,2'' @ [CHR 0x0A] @ ''3'' @ [CHR 0x0A] @ ''4,5,6'' @ [CHR 0x0A]) =
     [''A,B'', ''1,2'', ''3'', ''4,5,6''] \<and>
   parseCSV (''A,B'' @ [CHR 0x0A] @ ''1,2'' @ [CHR 0x0A] @ ''3'' @ [CHR 0x0A] @ ''4,5,6'' @ [CHR 0x0A]) =
     Inr [[(''A'', ''1''), (''B'', ''2'')]]"
proof -
  let ?c = "''A,B'' @ [CHR 0x0A] @ ''1,2'' @ [CHR 0x0A] @ ''3'' @ [CHR 0x0A] @ ''4,5,6'' @ [CHR 0x0A]"
  have l: "csv_lines ?c = [''A,B'', ''1,2'', ''3'', ''4,5,6'']"
    by code_simp
  have "map (\<lambda>line. zip (csv_headers ''A,B'') (parseCSVLine line))
          (filter (\<lambda>line. length (parseCSVLine line) = length (csv_headers ''A,B''))
             [''1,2'', ''3'', ''4,5,6'']) = [[(''A'', ''1''), (''B'', ''2'')]]"
    by code_simp
  with parseCSV_keeps_matching_lines [OF l] l show ?thesis
    by (simp only: simp_thms)
qed

text \<open>
  Claim C10 as stated fails for a continuation line whose field count happens to equal
  the header's: the record \<open>"a\<newline>b,c",d\<close> under the header \<open>A,B\<close> is split into the
  lines \<open>"a\<close> and \<open>b,c",d\<close>; the second parses into two fields and is kept as the row
  \<open>A = b\<close>, \<open>B = c,d\<close>.
\<close>

theorem continuation_line_kept_counterexample:
  "csv_lines (''A,B'' @ [CHR 0x0A, CHR 0x22] @ ''a'' @ [CHR 0x0A] @ ''b,c'' @ [CHR 0x22] @ '',d'' @ [CHR 0x0A]) =
     [''A,B'', [CHR 0x22] @ ''a'', ''b,c'' @ [CHR 0x22] @ '',d''] \<and>
   parseCSV (''A,B'' @ [CHR 0x0A, CHR 0x22] @ ''a'' @ [CHR 0x0A] @ ''b,c'' @ [CHR 0x22] @ '',d'' @ [CHR 0x0A]) =
     Inr [[(''A'', ''b''), (''B'', ''c,d'')]]"
  by code_simp

end
